theory Spec2Isabelle
  imports Main "HOL-Library.Sublist" "HOL-Library.Word"
begin

section \<open>The pgkons navigator: Runner.Run, selectState, selecter and the searchers\<close>

text \<open>
  The development follows \<^verbatim>\<open>cmd/pgkons/main.go\<close> (the Runner, its data providers,
  \<^verbatim>\<open>selecter\<close>, \<^verbatim>\<open>selectSize\<close>, \<^verbatim>\<open>overwritePrevLine\<close>) and the file that declares
  \<^verbatim>\<open>StateFn\<close>, the state tree and \<^verbatim>\<open>selectState\<close>. Go strings are byte lists; the
  terminal, the database and the promptui list picker are the environment, kept in an
  explicit \<open>world\<close> that every effectful function takes and returns.
\<close>

subsection \<open>The functions of package strings that the program calls\<close>

text \<open>
  \<^verbatim>\<open>strings.ToLower\<close>. On a string of ASCII bytes only, the letters A to Z are
  mapped to a to z and every other byte is kept. On any other string Go maps the
  runes through the Unicode case tables of its library,
  \<^verbatim>\<open>strings.Map(unicode.ToLower, s)\<close>; those tables are no part of the program, and
  that function is the parameter \<open>unicode\<close>.
\<close>

definition toLowerByte :: "char \<Rightarrow> char" where
  "toLowerByte c =
     (let n = (of_char c :: nat) in if 65 \<le> n \<and> n \<le> 90 then char_of (n + 32) else c)"

definition isASCII :: "string \<Rightarrow> bool" where
  "isASCII s = list_all (\<lambda>c. (of_char c :: nat) < 128) s"

definition strings_ToLower :: "(string \<Rightarrow> string) \<Rightarrow> string \<Rightarrow> string" where
  "strings_ToLower unicode s = (if isASCII s then map toLowerByte s else unicode s)"

text \<open>
  \<^verbatim>\<open>strings.Replace(s, old, new, n)\<close>: the first \<open>n\<close> non-overlapping occurrences of
  \<open>old\<close> are replaced, all of them when \<open>n < 0\<close>. An empty \<open>old\<close> matches before
  every byte and at the end.
\<close>

function strings_Replace :: "string \<Rightarrow> string \<Rightarrow> string \<Rightarrow> int \<Rightarrow> string" where
  "strings_Replace s old new n =
     (if n = 0 then s
      else if old = [] then
        (case s of [] \<Rightarrow> new
         | c # cs \<Rightarrow> new @ c # (if n = 1 then cs
                                 else strings_Replace cs old new (if n < 0 then n else n - 1)))
      else if s = [] then s
      else if prefix old s
        then new @ strings_Replace (drop (length old) s) old new (if n < 0 then n else n - 1)
        else hd s # strings_Replace (tl s) old new n)"
  by pat_completeness auto
termination
  by (relation "measure (\<lambda>(s, old, new, n). length s)") (auto simp: neq_Nil_conv)

declare strings_Replace.simps [simp del]

text \<open>\<^verbatim>\<open>strings.Contains(s, substr)\<close>: \<open>substr\<close> occurs in \<open>s\<close> as a contiguous block.\<close>

fun strings_Contains :: "string \<Rightarrow> string \<Rightarrow> bool" where
  "strings_Contains [] substr = (substr = [])"
| "strings_Contains (c # cs) substr = (prefix substr (c # cs) \<or> strings_Contains cs substr)"

text \<open>
  \<^verbatim>\<open>strings.Count(s, substr)\<close>: the number of non-overlapping occurrences; for an
  empty \<open>substr\<close> one more than the number of bytes.
\<close>

function strings_Count :: "string \<Rightarrow> string \<Rightarrow> int" where
  "strings_Count s substr =
     (if substr = [] then int (length s) + 1
      else if s = [] then 0
      else if prefix substr s then 1 + strings_Count (drop (length substr) s) substr
      else strings_Count (tl s) substr)"
  by pat_completeness auto
termination
  by (relation "measure (\<lambda>(s, substr). length s)") (auto simp: neq_Nil_conv)

declare strings_Count.simps [simp del]

subsection \<open>Errors, panics and the rows of the data providers\<close>

text \<open>
  Go's \<^verbatim>\<open>error\<close> values that can reach \<^verbatim>\<open>Run\<close>: the two sentinels that \<^verbatim>\<open>main\<close>
  compares against (\<^verbatim>\<open>context.Canceled\<close>, \<^verbatim>\<open>errFinished\<close>), the sentinels of the
  list picker for an interrupt, an end of input and an abort, the deadline of the
  five-second query contexts, and any other error, carried with its message.
  A nil error is \<open>None\<close> of \<open>error option\<close>.
\<close>

datatype error =
    context_Canceled
  | context_DeadlineExceeded
  | errFinished
  | promptui_ErrInterrupt
  | promptui_ErrEOF
  | promptui_ErrAbort
  | errors_New string

text \<open>A slice read out of range panics; \<open>Panic\<close> is that outcome.\<close>

datatype 'a outcome = Ok 'a | Panic

definition slice_at :: "'a list \<Rightarrow> int \<Rightarrow> 'a outcome" where
  "slice_at xs i = (if 0 \<le> i \<and> i < int (length xs) then Ok (xs ! nat i) else Panic)"

text \<open>A \<^verbatim>\<open>float64\<close> is kept as its 64 bits; the program only stores and shows it.\<close>

type_synonym float64 = "64 word"

record schema =
  schema_Name :: string
  schema_Owner :: string
  schema_CatalogName :: string

record pgTable =
  pgTable_Catalog :: string
  pgTable_Name :: string
  pgTable_Owner :: string
  pgTable_Schema :: string
  pgTable_Size :: string

record view =
  view_Name :: string
  view_Definition :: string
  view_IsPopulated :: bool
  view_Owner :: string
  view_ViewSchema :: string
  view_ReferencedTableSchema :: string
  view_ReferencedTableName :: string

text \<open>The anonymous row structs of the statistics providers.\<close>

record summary =
  summary_Schema :: string
  summary_TableCount :: int

record indexedTable = pgTable +
  indexedTable_DataSize :: string
  indexedTable_ExternalSize :: string

record countedTable = pgTable +
  countedTable_Rows :: float64

record rowGroup =
  rowGroup_RowCount :: string
  rowGroup_TableCount :: int

record colFrequency =
  colFrequency_Name :: string
  colFrequency_Tables :: int
  colFrequency_PercentTables :: float64

text \<open>
  The \<^verbatim>\<open>interface{}\<close> items handed to the list picker. A menu entry is shown by its
  name only (the menu templates read \<^verbatim>\<open>.Name\<close>), so a \<^verbatim>\<open>state\<close> item carries its name.
\<close>

datatype item =
    StateItem string
  | SchemaItem schema
  | TableItem pgTable
  | ViewItem view
  | SummaryItem summary
  | IndexedTableItem indexedTable
  | CountedTableItem countedTable
  | RowGroupItem rowGroup
  | ColFrequencyItem colFrequency
  | StringItem string

subsection \<open>The environment\<close>

record SelectTemplates =
  Tmpl_Label :: string
  Tmpl_Active :: string
  Tmpl_Inactive :: string
  Tmpl_Selected :: string
  Tmpl_Details :: string

record Select =
  Select_HideHelp :: bool
  Select_Label :: string
  Select_Items :: "item list"
  Select_Searcher :: "(string \<Rightarrow> int \<Rightarrow> bool outcome) option"
  Select_Size :: int
  Select_StartInSearchMode :: bool
  Select_Templates :: "SelectTemplates option"

record Winsize =
  Winsize_Row :: "16 word"
  Winsize_Col :: "16 word"

text \<open>What each query of the Runner yields: an error, or the rows scanned.\<close>

record database =
  q_Schemas :: "error + schema list"
  q_SchemasUserCreated :: "error + schema list"
  q_Tables :: "error + pgTable list"
  q_Views :: "error + view list"
  q_MaterializedViews :: "error + view list"
  q_TablesBySchema :: "error + summary list"
  q_TablesBySize :: "error + pgTable list"
  q_TablesBySizeWithIndex :: "error + indexedTable list"
  q_TablesByRows :: "error + countedTable list"
  q_TablesEmpty :: "error + pgTable list"
  q_TablesGroupByRows :: "error + rowGroup list"
  q_ColumnsFrequency :: "error + colFrequency list"
  q_Version :: "error + string"

text \<open>
  The world: the Unicode case mapping of the Go library (see \<open>strings_ToLower\<close>);
  the answer of the window-size ioctl; what the \<open>k\<close>-th run of a list
  picker returns (index and error) and what the database answers to the \<open>k\<close>-th
  query; and what the program has done so far: the pickers it has run, the number
  of queries it has sent, the bytes it has printed.
\<close>

record world =
  unicode_ToLower :: "string \<Rightarrow> string"
  tty :: "error + Winsize"
  picks :: "nat \<Rightarrow> int \<times> error option"
  db :: "nat \<Rightarrow> database"
  prompts :: "Select list"
  queries :: nat
  stdout :: string

definition Select_Run :: "Select \<Rightarrow> world \<Rightarrow> (int \<times> error option) \<times> world" where
  "Select_Run sel w = (picks w (length (prompts w)), w\<lparr>prompts := prompts w @ [sel]\<rparr>)"

definition SelectContext :: "(database \<Rightarrow> error + 'a) \<Rightarrow> world \<Rightarrow> (error + 'a) \<times> world" where
  "SelectContext q w = (q (db w (queries w)), w\<lparr>queries := queries w + 1\<rparr>)"

definition fmt_Print :: "string \<Rightarrow> world \<Rightarrow> world" where
  "fmt_Print s w = w\<lparr>stdout := stdout w @ s\<rparr>"

subsection \<open>terminalSize, selectSize, overwritePrevLine, selecter\<close>

definition terminalSize :: "world \<Rightarrow> int \<times> int \<times> error option" where
  "terminalSize w =
     (case tty w of
        Inl err \<Rightarrow> (- 1, - 1, Some err)
      | Inr ws \<Rightarrow> (uint (Winsize_Col ws), uint (Winsize_Row ws), None))"

definition selectSize :: "SelectTemplates option \<Rightarrow> world \<Rightarrow> int" where
  "selectSize templates w =
     (case terminalSize w of
        (width, height, err) \<Rightarrow>
          if err \<noteq> None \<or> templates = None \<or> height < 4 then 1
          else height - 4 - strings_Count (Tmpl_Details (the templates)) [CHR 0x0A])"

definition escPrevLine :: string where
  "escPrevLine = [CHR 0x1B] @ ''[F''"

definition clearLine :: string where
  "clearLine = ''2K''"

definition carriageReturn :: string where
  "carriageReturn = [CHR 0x0D]"

definition overwritePrevLine :: "world \<Rightarrow> world" where
  "overwritePrevLine w = fmt_Print (escPrevLine @ clearLine @ carriageReturn) w"

definition selecter ::
  "string \<Rightarrow> item list \<Rightarrow> (string \<Rightarrow> int \<Rightarrow> bool outcome) option \<Rightarrow> SelectTemplates option
     \<Rightarrow> world \<Rightarrow> error option \<times> world" where
  "selecter name items searcher templates w =
     (let sel = \<lparr>Select_HideHelp = True,
                 Select_Label = name,
                 Select_Items = items,
                 Select_Searcher = searcher,
                 Select_Size = selectSize templates w,
                 Select_StartInSearchMode = (searcher \<noteq> None),
                 Select_Templates = templates\<rparr>
      in case Select_Run sel w of
           ((i, err), w1) \<Rightarrow> (err, overwritePrevLine w1))"

subsection \<open>The render templates of the providers and of the menus\<close>

definition Schemas_templates :: SelectTemplates where
  \<open>Schemas_templates = \<lparr>
     Tmpl_Label = ''{{ . }}'',
     Tmpl_Active = [CHR 0xC2, CHR 0xBB] @ '' {{ .Name | bold|  cyan }} ({{ .Owner | bold | red }})'',
     Tmpl_Inactive = ''  {{ .Name | cyan }} ({{ .Owner | red }})'',
     Tmpl_Selected = '''',
     Tmpl_Details = [CHR 0x0A] @ ''--------- Schema ----------'' @ [CHR 0x0A] @ ''{{ "Name:" | faint }}'' @ [CHR 0x09] @ ''{{ .Name }}'' @ [CHR 0x0A] @ ''{{ "Owner:" | faint }}'' @ [CHR 0x09] @ ''{{ .Owner }}'' @ [CHR 0x0A] @ ''{{ "Catalog name:" | faint }}'' @ [CHR 0x09] @ ''{{ .CatalogName }}''\<rparr>\<close>

definition SchemasUserCreated_templates :: SelectTemplates where
  \<open>SchemasUserCreated_templates = \<lparr>
     Tmpl_Label = ''{{ . }}'',
     Tmpl_Active = [CHR 0xC2, CHR 0xBB] @ '' {{ .Name | bold|  cyan }} ({{ .Owner | bold | red }})'',
     Tmpl_Inactive = ''  {{ .Name | cyan }} ({{ .Owner | red }})'',
     Tmpl_Selected = '''',
     Tmpl_Details = [CHR 0x0A] @ ''--------- Schema ----------'' @ [CHR 0x0A] @ ''{{ "Name:" | faint }}'' @ [CHR 0x09] @ ''{{ .Name }}'' @ [CHR 0x0A] @ ''{{ "Owner:" | faint }}'' @ [CHR 0x09] @ ''{{ .Owner }}''\<rparr>\<close>

definition Tables_templates :: SelectTemplates where
  \<open>Tables_templates = \<lparr>
     Tmpl_Label = ''{{ . }}'',
     Tmpl_Active = [CHR 0xC2, CHR 0xBB] @ '' {{ .Schema | bold | green }}.{{ .Name | bold | cyan }}'',
     Tmpl_Inactive = ''  {{ .Schema | green }}.{{ .Name | cyan }}'',
     Tmpl_Selected = '''',
     Tmpl_Details = [CHR 0x0A] @ '' --------- Table ----------'' @ [CHR 0x0A] @ '' {{ "Name:" | faint }}'' @ [CHR 0x09] @ ''{{ .Name }}'' @ [CHR 0x0A] @ '' {{ "Schema:" | faint }}'' @ [CHR 0x09] @ ''{{ .Schema }}'' @ [CHR 0x0A] @ '' {{ "Catalog:" | faint }}'' @ [CHR 0x09] @ ''{{ .Catalog }}''\<rparr>\<close>

definition Views_templates :: SelectTemplates where
  \<open>Views_templates = \<lparr>
     Tmpl_Label = ''{{ . }}'',
     Tmpl_Active = [CHR 0xC2, CHR 0xBB] @ '' {{ .ViewSchema | bold | green }}.{{ .Name | bold | cyan }}: {{ .Definition }}'',
     Tmpl_Inactive = ''  {{ .ViewSchema | green }}.{{ .Name | cyan }}: {{ .Definition }}'',
     Tmpl_Selected = '''',
     Tmpl_Details = ''''\<rparr>\<close>

definition MaterializedViews_templates :: SelectTemplates where
  \<open>MaterializedViews_templates = \<lparr>
     Tmpl_Label = ''{{ . }}'',
     Tmpl_Active = [CHR 0xC2, CHR 0xBB] @ '' {{ .ViewSchema | bold | green }}.{{ .Name | bold | cyan }}: ({{ .ReferencedTableSchema }}.{{ .ReferencedTableName }}) {{ .Definition }}'',
     Tmpl_Inactive = ''  {{ .ViewSchema | green }}.{{ .Name | cyan }}: ({{ .ReferencedTableSchema }}.{{ .ReferencedTableName }}) {{ .Definition }}'',
     Tmpl_Selected = '''',
     Tmpl_Details = ''''\<rparr>\<close>

definition TablesBySchema_templates :: SelectTemplates where
  \<open>TablesBySchema_templates = \<lparr>
     Tmpl_Label = ''{{ . }}'',
     Tmpl_Active = [CHR 0xC2, CHR 0xBB] @ '' {{ .Schema | bold | green }}: {{ .TableCount | bold | blue}}'',
     Tmpl_Inactive = ''  {{ .Schema | green }}: {{ .TableCount | blue}}'',
     Tmpl_Selected = '''',
     Tmpl_Details = ''''\<rparr>\<close>

definition TablesBySize_templates :: SelectTemplates where
  \<open>TablesBySize_templates = \<lparr>
     Tmpl_Label = ''{{ . }}'',
     Tmpl_Active = [CHR 0xC2, CHR 0xBB] @ '' {{ .Schema | bold | green }}.{{ .Name | bold | cyan }}: {{ .Size | bold | blue}}'',
     Tmpl_Inactive = ''  {{ .Schema | green }}.{{ .Name | cyan }}: {{ .Size | blue}}'',
     Tmpl_Selected = '''',
     Tmpl_Details = ''''\<rparr>\<close>

definition TablesBySizeWithIndex_templates :: SelectTemplates where
  \<open>TablesBySizeWithIndex_templates = \<lparr>
     Tmpl_Label = ''{{ . }}'',
     Tmpl_Active = [CHR 0xC2, CHR 0xBB] @ '' {{ .Schema | bold | green }}.{{ .Name | bold | cyan }}: {{ .Size | bold | blue}} (Internal {{ .DataSize | blue }} | External {{ .ExternalSize | blue }})'',
     Tmpl_Inactive = ''  {{ .Schema | green }}.{{ .Name | cyan }}: {{ .Size | blue}} (Internal {{ .DataSize | blue }} | External {{ .ExternalSize | blue }})'',
     Tmpl_Selected = '''',
     Tmpl_Details = ''''\<rparr>\<close>

definition TablesByRows_templates :: SelectTemplates where
  \<open>TablesByRows_templates = \<lparr>
     Tmpl_Label = ''{{ . }}'',
     Tmpl_Active = [CHR 0xC2, CHR 0xBB] @ '' {{ .Schema | bold | green }}.{{ .Name | bold | cyan }}: {{ .Rows | bold | blue}} rows'',
     Tmpl_Inactive = ''  {{ .Schema | green }}.{{ .Name | cyan }}: {{ .Rows | blue}} rows'',
     Tmpl_Selected = '''',
     Tmpl_Details = ''''\<rparr>\<close>

definition TablesEmpty_templates :: SelectTemplates where
  \<open>TablesEmpty_templates = \<lparr>
     Tmpl_Label = ''{{ . }}'',
     Tmpl_Active = [CHR 0xC2, CHR 0xBB] @ '' {{ .Schema | bold | green }}.{{ .Name | bold | cyan }}: 0 rows'',
     Tmpl_Inactive = ''  {{ .Schema | green }}.{{ .Name | cyan }}: 0 rows'',
     Tmpl_Selected = '''',
     Tmpl_Details = ''''\<rparr>\<close>

definition TablesGroupByRows_templates :: SelectTemplates where
  \<open>TablesGroupByRows_templates = \<lparr>
     Tmpl_Label = ''{{ . }}'',
     Tmpl_Active = [CHR 0xC2, CHR 0xBB] @ '' {{ .RowCount | bold | cyan }}: {{ .TableCount | bold | blue }}'',
     Tmpl_Inactive = ''  {{ .RowCount | cyan }}: {{ .TableCount | blue }}'',
     Tmpl_Selected = '''',
     Tmpl_Details = ''''\<rparr>\<close>

definition ColumnsFrequency_templates :: SelectTemplates where
  \<open>ColumnsFrequency_templates = \<lparr>
     Tmpl_Label = ''{{ . }}'',
     Tmpl_Active = [CHR 0xC2, CHR 0xBB] @ '' {{ .Name | bold | green }}: {{ .Tables | bold | cyan }} ({{ .PercentTables | bold | blue}})'',
     Tmpl_Inactive = ''  {{ .Name | green }}: {{ .Tables | cyan }} ({{ .PercentTables | blue}})'',
     Tmpl_Selected = '''',
     Tmpl_Details = [CHR 0x0A] @ '' --------- Columns ----------'' @ [CHR 0x0A] @ '' {{ "Column Name:" | faint }}'' @ [CHR 0x09] @ ''{{ .Name }}'' @ [CHR 0x0A] @ '' {{ "Table Count:" | faint }}'' @ [CHR 0x09] @ ''{{ .Tables }}'' @ [CHR 0x0A] @ '' {{ "Percentage of Tables:" | faint }}'' @ [CHR 0x09] @ ''{{ .PercentTables }}''\<rparr>\<close>

definition selectState_templates :: SelectTemplates where
  \<open>selectState_templates = \<lparr>
     Tmpl_Label = ''{{ . }}'',
     Tmpl_Active = [CHR 0xC2, CHR 0xBB] @ '' {{ .Name | bold | cyan }} '',
     Tmpl_Inactive = ''  {{ .Name | cyan }} '',
     Tmpl_Selected = ''{{ print .Name }}'',
     Tmpl_Details = ''''\<rparr>\<close>

subsection \<open>The search predicates\<close>

text \<open>
  Each provider builds its own closure over the rows it fetched; the list picker calls
  it with the text typed so far and the index of a row. The first argument is the
  Unicode case mapping that \<open>strings_ToLower\<close> falls back on.
\<close>

definition Schemas_searcher ::
  "(string \<Rightarrow> string) \<Rightarrow> schema list \<Rightarrow> string \<Rightarrow> int \<Rightarrow> bool outcome" where
  "Schemas_searcher unicode schemas input index =
     (case slice_at schemas index of
        Panic \<Rightarrow> Panic
      | Ok sch \<Rightarrow>
          (let name = strings_Replace (strings_ToLower unicode (schema_Name sch)) '' '' [] (- 1);
               input = strings_Replace (strings_ToLower unicode input) '' '' [] (- 1)
           in Ok (strings_Contains name input)))"

definition SchemasUserCreated_searcher ::
  "(string \<Rightarrow> string) \<Rightarrow> schema list \<Rightarrow> string \<Rightarrow> int \<Rightarrow> bool outcome" where
  "SchemasUserCreated_searcher unicode schemas input index =
     (case slice_at schemas index of
        Panic \<Rightarrow> Panic
      | Ok sch \<Rightarrow>
          (let name = strings_Replace (strings_ToLower unicode (schema_Name sch)) '' '' [] (- 1);
               input = strings_Replace (strings_ToLower unicode input) '' '' [] (- 1)
           in Ok (strings_Contains name input)))"

definition Tables_searcher ::
  "(string \<Rightarrow> string) \<Rightarrow> pgTable list \<Rightarrow> string \<Rightarrow> int \<Rightarrow> bool outcome" where
  "Tables_searcher unicode tables input index =
     (case slice_at tables index of
        Panic \<Rightarrow> Panic
      | Ok table \<Rightarrow>
          (let name = strings_Replace (strings_ToLower unicode (pgTable_Name table)) '' '' [] (- 1);
               schema = strings_Replace (strings_ToLower unicode (pgTable_Schema table)) '' '' [] (- 1);
               input = strings_Replace (strings_ToLower unicode input) '' '' [] (- 1);
               combined = schema @ ''.'' @ name
           in Ok (strings_Contains combined input)))"

definition Views_searcher ::
  "(string \<Rightarrow> string) \<Rightarrow> view list \<Rightarrow> string \<Rightarrow> int \<Rightarrow> bool outcome" where
  "Views_searcher unicode views input index =
     (case slice_at views index of
        Panic \<Rightarrow> Panic
      | Ok selected \<Rightarrow>
          (let name = strings_Replace (strings_ToLower unicode (view_Name selected)) '' '' [] (- 1);
               schema = strings_Replace (strings_ToLower unicode (view_ViewSchema selected)) '' '' [] (- 1);
               input = strings_Replace (strings_ToLower unicode input) '' '' [] (- 1)
           in Ok (strings_Contains (schema @ ''.'' @ name) input)))"

definition MaterializedViews_searcher ::
  "(string \<Rightarrow> string) \<Rightarrow> view list \<Rightarrow> string \<Rightarrow> int \<Rightarrow> bool outcome" where
  "MaterializedViews_searcher unicode views input index =
     (case slice_at views index of
        Panic \<Rightarrow> Panic
      | Ok selected \<Rightarrow>
          (let name = strings_Replace (strings_ToLower unicode (view_Name selected)) '' '' [] (- 1);
               schema = strings_Replace (strings_ToLower unicode (view_ViewSchema selected)) '' '' [] (- 1);
               input = strings_Replace (strings_ToLower unicode input) '' '' [] (- 1)
           in Ok (strings_Contains (schema @ ''.'' @ name) input)))"

definition TablesBySchema_searcher ::
  "(string \<Rightarrow> string) \<Rightarrow> summary list \<Rightarrow> string \<Rightarrow> int \<Rightarrow> bool outcome" where
  "TablesBySchema_searcher unicode summaries input index =
     (case slice_at summaries index of
        Panic \<Rightarrow> Panic
      | Ok selected \<Rightarrow>
          (let schema = strings_Replace (strings_ToLower unicode (summary_Schema selected)) '' '' [] (- 1);
               input = strings_Replace (strings_ToLower unicode input) '' '' [] (- 1)
           in Ok (strings_Contains schema input)))"

definition TablesBySize_searcher ::
  "(string \<Rightarrow> string) \<Rightarrow> pgTable list \<Rightarrow> string \<Rightarrow> int \<Rightarrow> bool outcome" where
  "TablesBySize_searcher unicode tables input index =
     (case slice_at tables index of
        Panic \<Rightarrow> Panic
      | Ok table \<Rightarrow>
          (let name = strings_Replace (strings_ToLower unicode (pgTable_Name table)) '' '' [] (- 1);
               schema = strings_Replace (strings_ToLower unicode (pgTable_Schema table)) '' '' [] (- 1);
               input = strings_Replace (strings_ToLower unicode input) '' '' [] (- 1);
               combined = schema @ ''.'' @ name
           in Ok (strings_Contains combined input)))"

definition TablesBySizeWithIndex_searcher ::
  "(string \<Rightarrow> string) \<Rightarrow> indexedTable list \<Rightarrow> string \<Rightarrow> int \<Rightarrow> bool outcome" where
  "TablesBySizeWithIndex_searcher unicode tables input index =
     (case slice_at tables index of
        Panic \<Rightarrow> Panic
      | Ok table \<Rightarrow>
          (let name = strings_Replace (strings_ToLower unicode (pgTable_Name table)) '' '' [] (- 1);
               schema = strings_Replace (strings_ToLower unicode (pgTable_Schema table)) '' '' [] (- 1);
               input = strings_Replace (strings_ToLower unicode input) '' '' [] (- 1);
               combined = schema @ ''.'' @ name
           in Ok (strings_Contains combined input)))"

definition TablesByRows_searcher ::
  "(string \<Rightarrow> string) \<Rightarrow> countedTable list \<Rightarrow> string \<Rightarrow> int \<Rightarrow> bool outcome" where
  "TablesByRows_searcher unicode tables input index =
     (case slice_at tables index of
        Panic \<Rightarrow> Panic
      | Ok table \<Rightarrow>
          (let name = strings_Replace (strings_ToLower unicode (pgTable_Name table)) '' '' [] (- 1);
               schema = strings_Replace (strings_ToLower unicode (pgTable_Schema table)) '' '' [] (- 1);
               input = strings_Replace (strings_ToLower unicode input) '' '' [] (- 1);
               combined = schema @ ''.'' @ name
           in Ok (strings_Contains combined input)))"

definition TablesEmpty_searcher ::
  "(string \<Rightarrow> string) \<Rightarrow> pgTable list \<Rightarrow> string \<Rightarrow> int \<Rightarrow> bool outcome" where
  "TablesEmpty_searcher unicode tables input index =
     (case slice_at tables index of
        Panic \<Rightarrow> Panic
      | Ok table \<Rightarrow>
          (let name = strings_Replace (strings_ToLower unicode (pgTable_Name table)) '' '' [] (- 1);
               schema = strings_Replace (strings_ToLower unicode (pgTable_Schema table)) '' '' [] (- 1);
               input = strings_Replace (strings_ToLower unicode input) '' '' [] (- 1);
               combined = schema @ ''.'' @ name
           in Ok (strings_Contains combined input)))"

definition ColumnsFrequency_searcher ::
  "(string \<Rightarrow> string) \<Rightarrow> colFrequency list \<Rightarrow> string \<Rightarrow> int \<Rightarrow> bool outcome" where
  "ColumnsFrequency_searcher unicode cols input index =
     (case slice_at cols index of
        Panic \<Rightarrow> Panic
      | Ok selected \<Rightarrow>
          (let name = strings_Replace (strings_ToLower unicode (colFrequency_Name selected)) '' '' [] (- 1);
               input = strings_Replace (strings_ToLower unicode input) '' '' [] (- 1)
           in Ok (strings_Contains name input)))"

subsection \<open>The data providers of the Runner\<close>

text \<open>
  Each provider sends its query, returns the query's error if there is one, and
  otherwise shows the rows through \<^verbatim>\<open>selecter\<close>. The two view providers
  append the row \<^verbatim>\<open>view{ViewSchema: "back"}\<close> to an empty result; their search
  closure reads the variable \<^verbatim>\<open>views\<close> after that assignment.
\<close>

definition view_back :: view where
  "view_back = \<lparr>view_Name = [], view_Definition = [], view_IsPopulated = False, view_Owner = [],
                 view_ViewSchema = ''back'', view_ReferencedTableSchema = [],
                 view_ReferencedTableName = []\<rparr>"

definition Schemas :: "world \<Rightarrow> error option \<times> world" where
  "Schemas w =
     (case SelectContext q_Schemas w of
        (Inl err, w1) \<Rightarrow> (Some err, w1)
      | (Inr schemas, w1) \<Rightarrow>
          selecter ''Schemas'' (map SchemaItem schemas) (Some (Schemas_searcher (unicode_ToLower w) schemas))
            (Some Schemas_templates) w1)"

definition SchemasUserCreated :: "world \<Rightarrow> error option \<times> world" where
  "SchemasUserCreated w =
     (case SelectContext q_SchemasUserCreated w of
        (Inl err, w1) \<Rightarrow> (Some err, w1)
      | (Inr schemas, w1) \<Rightarrow>
          selecter ''Schemas'' (map SchemaItem schemas) (Some (SchemasUserCreated_searcher (unicode_ToLower w) schemas))
            (Some SchemasUserCreated_templates) w1)"

definition Tables :: "world \<Rightarrow> error option \<times> world" where
  "Tables w =
     (case SelectContext q_Tables w of
        (Inl err, w1) \<Rightarrow> (Some err, w1)
      | (Inr tables, w1) \<Rightarrow>
          selecter ''Tables'' (map TableItem tables) (Some (Tables_searcher (unicode_ToLower w) tables))
            (Some Tables_templates) w1)"

definition Views :: "world \<Rightarrow> error option \<times> world" where
  "Views w =
     (case SelectContext q_Views w of
        (Inl err, w1) \<Rightarrow> (Some err, w1)
      | (Inr views, w1) \<Rightarrow>
          (let views = (if length views = 0 then views @ [view_back] else views)
           in selecter ''Views'' (map ViewItem views) (Some (Views_searcher (unicode_ToLower w) views))
                (Some Views_templates) w1))"

definition MaterializedViews :: "world \<Rightarrow> error option \<times> world" where
  "MaterializedViews w =
     (case SelectContext q_MaterializedViews w of
        (Inl err, w1) \<Rightarrow> (Some err, w1)
      | (Inr views, w1) \<Rightarrow>
          (let views = (if length views = 0 then views @ [view_back] else views)
           in selecter ''Views'' (map ViewItem views) (Some (MaterializedViews_searcher (unicode_ToLower w) views))
                (Some MaterializedViews_templates) w1))"

definition TablesBySchema :: "world \<Rightarrow> error option \<times> world" where
  "TablesBySchema w =
     (case SelectContext q_TablesBySchema w of
        (Inl err, w1) \<Rightarrow> (Some err, w1)
      | (Inr summaries, w1) \<Rightarrow>
          selecter ''Tables by Schema'' (map SummaryItem summaries) (Some (TablesBySchema_searcher (unicode_ToLower w) summaries))
            (Some TablesBySchema_templates) w1)"

definition TablesBySize :: "world \<Rightarrow> error option \<times> world" where
  "TablesBySize w =
     (case SelectContext q_TablesBySize w of
        (Inl err, w1) \<Rightarrow> (Some err, w1)
      | (Inr tables, w1) \<Rightarrow>
          selecter ''Tables by Size'' (map TableItem tables) (Some (TablesBySize_searcher (unicode_ToLower w) tables))
            (Some TablesBySize_templates) w1)"

definition TablesBySizeWithIndex :: "world \<Rightarrow> error option \<times> world" where
  "TablesBySizeWithIndex w =
     (case SelectContext q_TablesBySizeWithIndex w of
        (Inl err, w1) \<Rightarrow> (Some err, w1)
      | (Inr tables, w1) \<Rightarrow>
          selecter ''Tables by Size with Index'' (map IndexedTableItem tables) (Some (TablesBySizeWithIndex_searcher (unicode_ToLower w) tables))
            (Some TablesBySizeWithIndex_templates) w1)"

definition TablesByRows :: "world \<Rightarrow> error option \<times> world" where
  "TablesByRows w =
     (case SelectContext q_TablesByRows w of
        (Inl err, w1) \<Rightarrow> (Some err, w1)
      | (Inr tables, w1) \<Rightarrow>
          selecter ''Tables by Rows'' (map CountedTableItem tables) (Some (TablesByRows_searcher (unicode_ToLower w) tables))
            (Some TablesByRows_templates) w1)"

definition TablesEmpty :: "world \<Rightarrow> error option \<times> world" where
  "TablesEmpty w =
     (case SelectContext q_TablesEmpty w of
        (Inl err, w1) \<Rightarrow> (Some err, w1)
      | (Inr tables, w1) \<Rightarrow>
          selecter ''Empty Tables'' (map TableItem tables) (Some (TablesEmpty_searcher (unicode_ToLower w) tables))
            (Some TablesEmpty_templates) w1)"

definition TablesGroupByRows :: "world \<Rightarrow> error option \<times> world" where
  "TablesGroupByRows w =
     (case SelectContext q_TablesGroupByRows w of
        (Inl err, w1) \<Rightarrow> (Some err, w1)
      | (Inr tables, w1) \<Rightarrow>
          selecter ''Tables Grouped By Rows'' (map RowGroupItem tables) None
            (Some TablesGroupByRows_templates) w1)"

definition ColumnsFrequency :: "world \<Rightarrow> error option \<times> world" where
  "ColumnsFrequency w =
     (case SelectContext q_ColumnsFrequency w of
        (Inl err, w1) \<Rightarrow> (Some err, w1)
      | (Inr cols, w1) \<Rightarrow>
          selecter ''Column Frequencies'' (map ColFrequencyItem cols) (Some (ColumnsFrequency_searcher (unicode_ToLower w) cols))
            (Some ColumnsFrequency_templates) w1)"

definition Version :: "world \<Rightarrow> error option \<times> world" where
  "Version w =
     (case SelectContext q_Version w of
        (Inl err, w1) \<Rightarrow> (Some err, w1)
      | (Inr version, w1) \<Rightarrow> selecter ''Postgres Version'' [StringItem version] None None w1)"

subsection \<open>States and selectState\<close>

text \<open>
  \<^verbatim>\<open>type StateFn func(context.Context, *Runner) (StateFn, error)\<close>: a transition is a
  function value. The context and the Runner's database handle are part of the
  world. A nil \<^verbatim>\<open>StateFn\<close> is \<open>None\<close>.
\<close>

datatype StateFn =
  StateFn (call: "world \<Rightarrow> ((StateFn option \<times> error option) \<times> world) outcome")

record state =
  state_Name :: string
  state_Fn :: "StateFn option"

definition selectState_searcher ::
  "(string \<Rightarrow> string) \<Rightarrow> state list \<Rightarrow> string \<Rightarrow> int \<Rightarrow> bool outcome" where
  "selectState_searcher unicode states input index =
     (case slice_at states index of
        Panic \<Rightarrow> Panic
      | Ok table \<Rightarrow>
          (let name = strings_Replace (strings_ToLower unicode (state_Name table)) '' '' [] (- 1);
               input = strings_Replace (strings_ToLower unicode input) '' '' [] (- 1)
           in Ok (strings_Contains name input)))"

definition selectState ::
  "string \<Rightarrow> state list \<Rightarrow> world \<Rightarrow> ((StateFn option \<times> error option) \<times> world) outcome" where
  "selectState name states w =
     (if length states = 0 then Ok ((None, None), w)
      else
        let templates = Some selectState_templates;
            searcher = selectState_searcher (unicode_ToLower w) states;
            sel = \<lparr>Select_HideHelp = True,
                   Select_Label = name,
                   Select_Items = map (\<lambda>s. StateItem (state_Name s)) states,
                   Select_Searcher = Some searcher,
                   Select_Size = selectSize templates w,
                   Select_StartInSearchMode = True,
                   Select_Templates = templates\<rparr>
        in (case Select_Run sel w of
              ((i, err), w1) \<Rightarrow>
                (if err \<noteq> None then Ok ((None, err), w1)
                 else
                   (let w2 = overwritePrevLine w1
                    in (case slice_at states i of
                          Panic \<Rightarrow> Panic
                        | Ok s \<Rightarrow> Ok ((state_Fn s, None), w2))))))"

text \<open>A leaf of the tree: \<^verbatim>\<open>func(ctx, r) (StateFn, error) { return nil, r.X(ctx) }\<close>.\<close>

definition action :: "(world \<Rightarrow> error option \<times> world) \<Rightarrow> StateFn" where
  "action provider = StateFn (\<lambda>w. case provider w of (err, w1) \<Rightarrow> Ok ((None, err), w1))"

definition schemaState_all :: state where
  "schemaState_all = \<lparr>state_Name = ''All'', state_Fn = Some (action Schemas)\<rparr>"

definition schemaState_userCreated :: state where
  "schemaState_userCreated =
     \<lparr>state_Name = ''User Created'', state_Fn = Some (action SchemasUserCreated)\<rparr>"

definition schemaState :: state where
  "schemaState =
     \<lparr>state_Name = ''Schemas'',
      state_Fn = Some (StateFn (\<lambda>w.
        selectState ''Schema Options'' [schemaState_all, schemaState_userCreated] w))\<rparr>"

definition tableState :: state where
  "tableState = \<lparr>state_Name = ''Tables'', state_Fn = Some (action Tables)\<rparr>"

definition viewState_all :: state where
  "viewState_all = \<lparr>state_Name = ''All'', state_Fn = Some (action Views)\<rparr>"

definition viewState_materialized :: state where
  "viewState_materialized =
     \<lparr>state_Name = ''Materialized'', state_Fn = Some (action MaterializedViews)\<rparr>"

definition viewState :: state where
  "viewState =
     \<lparr>state_Name = ''Views'',
      state_Fn = Some (StateFn (\<lambda>w.
        selectState ''Views'' [viewState_all, viewState_materialized] w))\<rparr>"

definition statStates :: "state list" where
  "statStates =
     [\<lparr>state_Name = ''Table Count Per Schema'', state_Fn = Some (action TablesBySchema)\<rparr>,
      \<lparr>state_Name = ''Tables By Size'', state_Fn = Some (action TablesBySize)\<rparr>,
      \<lparr>state_Name = ''Tables By Size With Indexes'',
       state_Fn = Some (action TablesBySizeWithIndex)\<rparr>,
      \<lparr>state_Name = ''Table Row Counts'', state_Fn = Some (action TablesByRows)\<rparr>,
      \<lparr>state_Name = ''Empty Tables'', state_Fn = Some (action TablesEmpty)\<rparr>,
      \<lparr>state_Name = ''Tables Grouped By Rows'', state_Fn = Some (action TablesGroupByRows)\<rparr>,
      \<lparr>state_Name = ''Column Name Frequencies'', state_Fn = Some (action ColumnsFrequency)\<rparr>,
      \<lparr>state_Name = ''Postgres Version'', state_Fn = Some (action Version)\<rparr>]"

definition statsState :: state where
  "statsState =
     \<lparr>state_Name = ''Stats'', state_Fn = Some (StateFn (\<lambda>w. selectState ''Stats'' statStates w))\<rparr>"

definition exploreState :: state where
  "exploreState =
     \<lparr>state_Name = ''Explore'',
      state_Fn = Some (StateFn (\<lambda>w.
        selectState ''Where too?'' [schemaState, tableState, viewState, statsState] w))\<rparr>"

definition playgroundState :: state where
  "playgroundState =
     \<lparr>state_Name = ''PlayGround'', state_Fn = Some (StateFn (\<lambda>w. Ok ((None, None), w)))\<rparr>"

definition startStates :: "state list" where
  "startStates = [exploreState, playgroundState]"

definition startState :: state where
  "startState =
     \<lparr>state_Name = ''Back to Start'',
      state_Fn = Some (StateFn (\<lambda>w. selectState ''Options'' startStates w))\<rparr>"

subsection \<open>Runner.Run\<close>

text \<open>
  The loop of \<^verbatim>\<open>Run\<close> has no bound of its own: it goes on for as long as transitions
  return no error. \<open>Run_loop\<close> is the loop with a bound on the number of iterations;
  \<open>None\<close> means that the bound was reached with the loop still running. Its
  arguments are the loop variables \<^verbatim>\<open>fn\<close> and \<^verbatim>\<open>err\<close> at the loop test.
\<close>

fun Run_loop ::
  "nat \<Rightarrow> StateFn option \<Rightarrow> error option \<Rightarrow> world \<Rightarrow> (error option \<times> world) outcome option" where
  "Run_loop n None err w = Some (Ok (err, w))"
| "Run_loop 0 (Some fn) err w = None"
| "Run_loop (Suc n) (Some fn) err w =
     (case call fn w of
        Panic \<Rightarrow> Some Panic
      | Ok ((fn1, err1), w1) \<Rightarrow>
          Run_loop n (if fn1 = None \<and> err1 = None then state_Fn startState else fn1) err1 w1)"

definition Run :: "nat \<Rightarrow> world \<Rightarrow> bool \<Rightarrow> (error option \<times> world) outcome option" where
  "Run n w debug = Run_loop n (state_Fn startState) None w"

text \<open>
  The position of the loop at the start of its \<open>k\<close>-th iteration: the transition
  about to be called and the world it is called in; \<open>None\<close> when the loop has
  ended before.
\<close>

fun Run_at :: "nat \<Rightarrow> StateFn option \<Rightarrow> world \<Rightarrow> (StateFn \<times> world) option" where
  "Run_at k None w = None"
| "Run_at 0 (Some fn) w = Some (fn, w)"
| "Run_at (Suc k) (Some fn) w =
     (case call fn w of
        Panic \<Rightarrow> None
      | Ok ((fn1, err1), w1) \<Rightarrow>
          Run_at k (if fn1 = None \<and> err1 = None then state_Fn startState else fn1) w1)"

subsection \<open>The states of the tree, and worlds to run it in\<close>

definition actionStates :: "state list" where
  "actionStates =
     [schemaState_all, schemaState_userCreated, tableState, viewState_all,
      viewState_materialized] @ statStates"

definition menuStates :: "state list" where
  "menuStates = [startState, exploreState, schemaState, viewState, statsState]"

definition treeStates :: "state list" where
  "treeStates = menuStates @ playgroundState # actionStates"

text \<open>
  A user who makes the picks \<open>xs\<close> one after the other and then closes the input:
  from then on every picker ends with the end-of-input error.
\<close>

definition script :: "(int \<times> error option) list \<Rightarrow> nat \<Rightarrow> int \<times> error option" where
  "script xs k = (if k < length xs then xs ! k else (0, Some promptui_ErrEOF))"

text \<open>A database with one schema, one table, and no views, statistics or empty tables.\<close>

definition demo_db :: database where
  "demo_db =
     \<lparr>q_Schemas = Inr [\<lparr>schema_Name = ''public'', schema_Owner = ''postgres'',
                         schema_CatalogName = ''postgres''\<rparr>],
      q_SchemasUserCreated = Inr [],
      q_Tables = Inr [\<lparr>pgTable_Catalog = ''postgres'', pgTable_Name = ''my table'',
                        pgTable_Owner = ''BASE TABLE'', pgTable_Schema = ''public'',
                        pgTable_Size = ''''\<rparr>],
      q_Views = Inr [],
      q_MaterializedViews = Inr [],
      q_TablesBySchema = Inr [],
      q_TablesBySize = Inr [],
      q_TablesBySizeWithIndex = Inr [],
      q_TablesByRows = Inr [],
      q_TablesEmpty = Inr [],
      q_TablesGroupByRows = Inr [],
      q_ColumnsFrequency = Inr [],
      q_Version = Inr ''PostgreSQL 11.2''\<rparr>"

definition demo_world :: "16 word \<Rightarrow> (int \<times> error option) list \<Rightarrow> world" where
  "demo_world rows xs =
     \<lparr>unicode_ToLower = (\<lambda>s. s),
      tty = Inr \<lparr>Winsize_Row = rows, Winsize_Col = 80\<rparr>,
      picks = script xs,
      db = (\<lambda>k. demo_db),
      prompts = [],
      queries = 0,
      stdout = []\<rparr>"

definition demo_picks :: "(int \<times> error option) list" where
  "demo_picks = [(0, None), (0, None), (0, None), (0, None), (0, Some promptui_ErrInterrupt)]"

definition demo_itable :: indexedTable where
  "demo_itable =
     \<lparr>pgTable_Catalog = ''postgres'', pgTable_Name = ''my table'', pgTable_Owner = '''',
      pgTable_Schema = ''public'', pgTable_Size = ''16 kB'',
      indexedTable_DataSize = ''8192 bytes'', indexedTable_ExternalSize = ''8192 bytes''\<rparr>"

definition demo_ctable :: countedTable where
  "demo_ctable =
     \<lparr>pgTable_Catalog = ''postgres'', pgTable_Name = ''my table'', pgTable_Owner = '''',
      pgTable_Schema = ''public'', pgTable_Size = '''', countedTable_Rows = 0\<rparr>"



subsection \<open>Notions used in the statements\<close>

text \<open>A string without its space bytes (U+0020 only: tabs and line breaks stay).\<close>

definition no_spaces :: "string \<Rightarrow> string" where
  "no_spaces s = filter (\<lambda>c. c \<noteq> CHR '' '') s"








section \<open>Lemmas\<close>

subsection \<open>Strings\<close>

lemma Replace_spaces: "strings_Replace s '' '' [] (- 1) = filter (\<lambda>c. c \<noteq> CHR '' '') s"
proof (induction s)
  case Nil
  show ?case by (simp add: strings_Replace.simps)
next
  case (Cons c cs)
  show ?case
  proof (cases "c = CHR '' ''")
    case True
    then show ?thesis using Cons by (subst strings_Replace.simps) simp
  next
    case False
    then show ?thesis using Cons by (subst strings_Replace.simps) simp
  qed
qed

lemma Count_byte: "strings_Count s [c] = int (length (filter (\<lambda>x. x = c) s))"
proof (induction s)
  case Nil
  show ?case by (simp add: strings_Count.simps)
next
  case (Cons x xs)
  then show ?case by (subst strings_Count.simps) auto
qed

lemma Contains_empty: "strings_Contains s []"
  by (cases s) simp_all



lemma squash_empty: "strings_Replace (strings_ToLower unicode []) '' '' [] (- 1) = []"
  by (simp add: Replace_spaces strings_ToLower_def isASCII_def)



lemma no_spaces_append: "no_spaces (a @ b) = no_spaces a @ no_spaces b"
  by (simp add: no_spaces_def)









subsection \<open>selectSize, selecter and selectState\<close>

lemma selectSize_eq: "selectSize t w = (case tty w of Inl e \<Rightarrow> 1 | Inr ws \<Rightarrow> (case t of None \<Rightarrow> 1 | Some tm \<Rightarrow>
   if uint (Winsize_Row ws) < 4 then 1 else uint (Winsize_Row ws) - 4 - int (length (filter (\<lambda>c. c = CHR 0x0A) (Tmpl_Details tm)))))"
  by (auto simp: selectSize_def terminalSize_def Count_byte split: sum.splits option.splits)

lemma selectSize_scenario_D:
  "selectSize (Some selectState_templates) (demo_world 2 []) = 1
   \<and> selectSize (Some Schemas_templates) (demo_world 20 []) = 12
   \<and> strings_Count (Tmpl_Details Schemas_templates) [CHR 0x0A] = 4
   \<and> strings_Count (Tmpl_Details selectState_templates) [CHR 0x0A] = 0"
  by code_simp

lemma selectSize_fallback:
  "selectSize None w = 1"
  "tty w = Inl e \<Longrightarrow> selectSize t w = 1"
  "tty w = Inr ws \<Longrightarrow> uint (Winsize_Row ws) < 4 \<Longrightarrow> selectSize t w = 1"
  by (auto simp: selectSize_eq split: sum.splits option.splits)

lemma selecter_out: "stdout (snd (selecter name items s t w)) = stdout w @ escPrevLine @ clearLine @ carriageReturn"
  by (simp add: selecter_def Select_Run_def overwritePrevLine_def fmt_Print_def Let_def split: prod.splits)

lemma selState_err: "states \<noteq> [] \<Longrightarrow> snd (picks w (length (prompts w))) = Some e \<Longrightarrow>
   \<exists>w'. selectState name states w = Ok ((None, Some e), w') \<and> stdout w' = stdout w \<and> length (prompts w') = Suc (length (prompts w))"
  by (auto simp add: selectState_def Select_Run_def Let_def split: prod.splits)

lemma Views_sentinel:
  "q_Views (db w (queries w)) = Inr [] \<Longrightarrow>
     prompts (snd (Views w)) = prompts w @ [sel] \<Longrightarrow> Select_Items sel = [ViewItem view_back]"
  by (auto simp: Views_def SelectContext_def selecter_def Select_Run_def Let_def
      overwritePrevLine_def fmt_Print_def split: sum.splits prod.splits)

lemma MaterializedViews_sentinel:
  "q_MaterializedViews (db w (queries w)) = Inr [] \<Longrightarrow>
     prompts (snd (MaterializedViews w)) = prompts w @ [sel] \<Longrightarrow> Select_Items sel = [ViewItem view_back]"
  by (auto simp: MaterializedViews_def SelectContext_def selecter_def Select_Run_def Let_def
      overwritePrevLine_def fmt_Print_def split: sum.splits prod.splits)

lemma selectState_next:
  assumes "selectState name states w = Ok ((nxt, err), w')"
  shows "(err \<noteq> None \<longrightarrow> nxt = None) \<and> (nxt \<noteq> None \<longrightarrow> nxt \<in> state_Fn ` set states)"
  using assms
  by (auto simp: selectState_def Let_def slice_at_def split: if_splits prod.splits outcome.splits)



















subsection \<open>The tree is closed under its transitions\<close>

lemma call_action:
  "call (action p) w = Ok ((nxt, err), w') \<longleftrightarrow> nxt = None \<and> p w = (err, w')"
  by (auto simp: action_def split: prod.splits)

lemma action_in_tree:
  "s \<in> set actionStates \<Longrightarrow> \<exists>p. state_Fn s = Some (action p)"
  by (auto simp: actionStates_def statStates_def schemaState_all_def schemaState_userCreated_def
      tableState_def viewState_all_def viewState_materialized_def)


lemma menu_shape:
  assumes "s \<in> set menuStates" and "state_Fn s = Some f"
  shows "\<exists>name states. f = StateFn (selectState name states) \<and> set states \<subseteq> set treeStates"
proof -
  have sub: "set startStates \<subseteq> set treeStates"
    "set [schemaState, tableState, viewState, statsState] \<subseteq> set treeStates"
    "set [schemaState_all, schemaState_userCreated] \<subseteq> set treeStates"
    "set [viewState_all, viewState_materialized] \<subseteq> set treeStates"
    "set statStates \<subseteq> set treeStates"
    by (auto simp: treeStates_def menuStates_def actionStates_def startStates_def)
  from assms(1) consider "s = startState" | "s = exploreState" | "s = schemaState"
    | "s = viewState" | "s = statsState"
    by (auto simp: menuStates_def)
  then show ?thesis
  proof cases
    case 1
    with assms(2) have "f = StateFn (selectState ''Options'' startStates)"
      by (simp add: startState_def)
    with sub(1) show ?thesis by blast
  next
    case 2
    with assms(2) have "f = StateFn (selectState ''Where too?'' [schemaState, tableState, viewState, statsState])"
      by (simp add: exploreState_def)
    with sub(2) show ?thesis by blast
  next
    case 3
    with assms(2) have "f = StateFn (selectState ''Schema Options'' [schemaState_all, schemaState_userCreated])"
      by (simp add: schemaState_def)
    with sub(3) show ?thesis by blast
  next
    case 4
    with assms(2) have "f = StateFn (selectState ''Views'' [viewState_all, viewState_materialized])"
      by (simp add: viewState_def)
    with sub(4) show ?thesis by blast
  next
    case 5
    with assms(2) have "f = StateFn (selectState ''Stats'' statStates)"
      by (simp add: statsState_def)
    with sub(5) show ?thesis by blast
  qed
qed

lemma tree_closed:
  assumes "Some f \<in> state_Fn ` set treeStates" and "call f w = Ok ((nxt, err), w')"
  shows "(err \<noteq> None \<longrightarrow> nxt = None) \<and> (nxt \<noteq> None \<longrightarrow> nxt \<in> state_Fn ` set treeStates)"
proof -
  from assms(1) obtain s where s: "s \<in> set treeStates" "state_Fn s = Some f" by force
  from s(1) consider "s \<in> set menuStates" | "s = playgroundState" | "s \<in> set actionStates"
    by (auto simp: treeStates_def)
  then show ?thesis
  proof cases
    case 1
    from menu_shape [OF 1 s(2)] obtain name states where
      m: "f = StateFn (selectState name states)" "set states \<subseteq> set treeStates" by blast
    with assms(2) have "selectState name states w = Ok ((nxt, err), w')" by simp
    from selectState_next [OF this] m(2) show ?thesis by auto
  next
    case 2
    with s(2) have "f = StateFn (\<lambda>w. Ok ((None, None), w))" by (simp add: playgroundState_def)
    with assms(2) show ?thesis by simp
  next
    case 3
    then obtain p where "state_Fn s = Some (action p)" using action_in_tree by blast
    with s(2) have "f = action p" by simp
    with assms(2) have "nxt = None" by (simp add: call_action)
    then show ?thesis by simp
  qed
qed




lemma start_in_tree: "state_Fn startState \<in> state_Fn ` set treeStates"
  by (simp add: treeStates_def menuStates_def)

lemma start_Some: "\<exists>f. state_Fn startState = Some f"
  by (simp add: startState_def)

subsection \<open>The loop of Run\<close>

lemma Run_loop_char:
  assumes "Some fn \<in> state_Fn ` set treeStates"
  shows "Run_loop n (Some fn) err w = Some (Ok (r, w')) \<longleftrightarrow>
     (\<exists>k<n. \<exists>f wk nxt e. Run_at k (Some fn) w = Some (f, wk) \<and> call f wk = Ok ((nxt, Some e), w') \<and> r = Some e)"
  using assms
proof (induction n arbitrary: fn err w)
  case 0
  show ?case by simp
next
  case (Suc n)
  show ?case
  proof (cases "call fn w")
    case Panic
    have "\<And>k. Run_at (Suc k) (Some fn) w = None" using Panic by simp
    then have one: "\<And>k f wk. Run_at k (Some fn) w = Some (f, wk) \<Longrightarrow> f = fn \<and> wk = w"
      by (case_tac k) auto
    have "\<not> (\<exists>k<Suc n. \<exists>f wk nxt e. Run_at k (Some fn) w = Some (f, wk)
            \<and> call f wk = Ok ((nxt, Some e), w') \<and> r = Some e)"
    proof
      assume "\<exists>k<Suc n. \<exists>f wk nxt e. Run_at k (Some fn) w = Some (f, wk)
            \<and> call f wk = Ok ((nxt, Some e), w') \<and> r = Some e"
      then obtain k f wk nxt e where k: "Run_at k (Some fn) w = Some (f, wk)"
        "call f wk = Ok ((nxt, Some e), w')" by blast
      from one [OF k(1)] k(2) Panic show False by simp
    qed
    moreover have "Run_loop (Suc n) (Some fn) err w = Some Panic" using Panic by simp
    ultimately show ?thesis by simp
  next
    case (Ok res)
    obtain fn1 err1 w1 where res: "res = ((fn1, err1), w1)" by (cases res) auto
    note c = Ok [unfolded res]
    from tree_closed [OF Suc.prems c]
    have cl: "err1 \<noteq> None \<longrightarrow> fn1 = None" "fn1 \<noteq> None \<longrightarrow> fn1 \<in> state_Fn ` set treeStates" by auto
    show ?thesis
    proof (cases err1)
      case None
      define g where "g = (if fn1 = None \<and> err1 = None then state_Fn startState else fn1)"
      have "g \<noteq> None" using None start_Some by (auto simp: g_def)
      then obtain gf where gf: "g = Some gf" by auto
      have gin: "Some gf \<in> state_Fn ` set treeStates"
        using cl(2) start_in_tree gf by (auto simp: g_def split: if_splits)
      have L: "Run_loop (Suc n) (Some fn) err w = Run_loop n (Some gf) err1 w1"
        using c gf by (simp add: g_def)
      have R: "\<And>k. Run_at (Suc k) (Some fn) w = Run_at k (Some gf) w1"
        using c gf by (simp add: g_def)
      have "(\<exists>k<Suc n. \<exists>f wk nxt e. Run_at k (Some fn) w = Some (f, wk) \<and> call f wk = Ok ((nxt, Some e), w') \<and> r = Some e)
          \<longleftrightarrow> (\<exists>k<n. \<exists>f wk nxt e. Run_at k (Some gf) w1 = Some (f, wk) \<and> call f wk = Ok ((nxt, Some e), w') \<and> r = Some e)"
        (is "?A \<longleftrightarrow> ?B")
      proof
        assume ?A
        then obtain k f wk nxt e where k: "k < Suc n" "Run_at k (Some fn) w = Some (f, wk)"
          "call f wk = Ok ((nxt, Some e), w')" "r = Some e" by blast
        have "k \<noteq> 0"
        proof
          assume "k = 0"
          with k(2) have "f = fn" "wk = w" by simp_all
          with k(3) c None show False by simp
        qed
        then obtain k' where "k = Suc k'" by (cases k) auto
        with k R show ?B by auto
      next
        assume ?B
        then obtain k f wk nxt e where k: "k < n" "Run_at k (Some gf) w1 = Some (f, wk)"
          "call f wk = Ok ((nxt, Some e), w')" "r = Some e" by blast
        then have "Suc k < Suc n" "Run_at (Suc k) (Some fn) w = Some (f, wk)" using R by auto
        with k(3,4) show ?A by blast
      qed
      then show ?thesis using L Suc.IH [OF gin] by simp
    next
      case (Some e1)
      with cl have f1: "fn1 = None" by simp
      have L: "Run_loop (Suc n) (Some fn) err w = Some (Ok (Some e1, w1))"
        using c Some f1 by simp
      have R: "\<And>k. Run_at (Suc k) (Some fn) w = None"
        using c Some f1 by simp
      have "(\<exists>k<Suc n. \<exists>f wk nxt e. Run_at k (Some fn) w = Some (f, wk) \<and> call f wk = Ok ((nxt, Some e), w') \<and> r = Some e)
          \<longleftrightarrow> (r = Some e1 \<and> w' = w1)" (is "?A \<longleftrightarrow> ?B")
      proof
        assume ?A
        then obtain k f wk nxt e where k: "k < Suc n" "Run_at k (Some fn) w = Some (f, wk)"
          "call f wk = Ok ((nxt, Some e), w')" "r = Some e" by blast
        have "k = 0" using k(2) R by (cases k) auto
        with k c Some show ?B by auto
      next
        assume ?B
        then have "Run_at 0 (Some fn) w = Some (fn, w)" "call fn w = Ok ((fn1, Some e1), w')" "r = Some e1"
          using c Some by auto
        then show ?A by blast
      qed
      then show ?thesis using L by auto
    qed
  qed
qed


text \<open>The bound does not change what the loop returns.\<close>

lemma Run_loop_more_fuel:
  "Run_loop n fn err w = Some x \<Longrightarrow> Run_loop (n + m) fn err w = Some x"
proof (induction n arbitrary: fn err w)
  case 0
  then show ?case by (cases fn) simp_all
next
  case (Suc n)
  show ?case
  proof (cases fn)
    case None
    with Suc.prems show ?thesis by simp
  next
    case (Some f)
    show ?thesis
    proof (cases "call f w")
      case Panic
      with Suc.prems Some show ?thesis by simp
    next
      case (Ok res)
      obtain fn1 err1 w1 where res: "res = ((fn1, err1), w1)" by (cases res) auto
      from Suc.prems Some Ok res
      have "Run_loop n (if fn1 = None \<and> err1 = None then state_Fn startState else fn1) err1 w1 = Some x"
        by simp
      from Suc.IH [OF this] Some Ok res show ?thesis by simp
    qed
  qed
qed

lemma Run_more_fuel:
  "Run n w debug = Some x \<Longrightarrow> Run (n + m) w debug = Some x"
  by (simp add: Run_def Run_loop_more_fuel)

lemma scenario_A:
  "(case Run 5 (demo_world 20 demo_picks) False of
      Some (Ok (r, w')) \<Rightarrow> map Select_Label (prompts w') | _ \<Rightarrow> [])
   = [''Options'', ''Where too?'', ''Schema Options'', ''Schemas'', ''Options'']"
  by code_simp

section \<open>The claims\<close>

text \<open>
  Claim C1. \<^verbatim>\<open>Run\<close> returns exactly when some transition of the run returns a
  non-nil error, and what it returns is that error and the world as that transition
  left it; so an error returned by \<^verbatim>\<open>Run\<close> is never nil. A run that ends in a
  panic does not return.
\<close>

theorem Run_returns_the_first_error:
  "((\<exists>n. Run n w debug = Some (Ok (r, w'))) \<longleftrightarrow>
      (\<exists>k fn wk nxt e. Run_at k (state_Fn startState) w = Some (fn, wk)
          \<and> call fn wk = Ok ((nxt, Some e), w') \<and> r = Some e))
   \<and> (Run n w debug = Some (Ok (r, w')) \<longrightarrow> r \<noteq> None)"
proof -
  obtain s where s: "state_Fn startState = Some s" using start_Some by blast
  have sin: "Some s \<in> state_Fn ` set treeStates" using start_in_tree s by simp
  have char: "\<And>n. Run n w debug = Some (Ok (r, w')) \<longleftrightarrow>
     (\<exists>k<n. \<exists>f wk nxt e. Run_at k (state_Fn startState) w = Some (f, wk)
        \<and> call f wk = Ok ((nxt, Some e), w') \<and> r = Some e)"
    unfolding Run_def s by (rule Run_loop_char [OF sin])
  have "(\<exists>n. Run n w debug = Some (Ok (r, w'))) \<longleftrightarrow>
      (\<exists>k fn wk nxt e. Run_at k (state_Fn startState) w = Some (fn, wk)
          \<and> call fn wk = Ok ((nxt, Some e), w') \<and> r = Some e)" (is "?L \<longleftrightarrow> ?R")
  proof
    assume ?L
    then show ?R using char by blast
  next
    assume ?R
    then obtain k fn wk nxt e where k: "Run_at k (state_Fn startState) w = Some (fn, wk)"
      "call fn wk = Ok ((nxt, Some e), w')" "r = Some e" by blast
    then have "Run (Suc k) w debug = Some (Ok (r, w'))" using char [of "Suc k"] by blast
    then show ?L ..
  qed
  moreover have "Run n w debug = Some (Ok (r, w')) \<longrightarrow> r \<noteq> None" using char [of n] by auto
  ultimately show ?thesis by simp
qed

text \<open>
  A run of the claim above: four picks of the first entry, then an interrupt at the
  root menu.
\<close>

theorem Run_returns_the_first_error_witness:
  "(\<exists>w'. Run 5 (demo_world 20 demo_picks) True = Some (Ok (Some promptui_ErrInterrupt, w')))
   \<and> (\<exists>k fn wk nxt w'. Run_at k (state_Fn startState) (demo_world 20 demo_picks) = Some (fn, wk)
          \<and> call fn wk = Ok ((nxt, Some promptui_ErrInterrupt), w'))"
proof -
  have "case Run 5 (demo_world 20 demo_picks) True of
          Some (Ok (r, w')) \<Rightarrow> r = Some promptui_ErrInterrupt | _ \<Rightarrow> False"
    by code_simp
  then obtain w' where
    run: "Run 5 (demo_world 20 demo_picks) True = Some (Ok (Some promptui_ErrInterrupt, w'))"
    by (auto split: option.splits outcome.splits)
  then have "\<exists>n. Run n (demo_world 20 demo_picks) True = Some (Ok (Some promptui_ErrInterrupt, w'))" ..
  with Run_returns_the_first_error [of "demo_world 20 demo_picks" True "Some promptui_ErrInterrupt" w' 5]
  have "\<exists>k fn wk nxt e. Run_at k (state_Fn startState) (demo_world 20 demo_picks) = Some (fn, wk)
          \<and> call fn wk = Ok ((nxt, Some e), w') \<and> Some promptui_ErrInterrupt = Some e" by blast
  then obtain k fn wk nxt where
    "Run_at k (state_Fn startState) (demo_world 20 demo_picks) = Some (fn, wk)"
    "call fn wk = Ok ((nxt, Some promptui_ErrInterrupt), w')" by auto
  with run show ?thesis by blast
qed



text \<open>
  Claim C3. The claim gives the viewport height as the maximum of 1 and the rows of
  the terminal less 4 less the line breaks of the detail template. \<^verbatim>\<open>selectSize\<close>
  returns 1 below four rows and has no lower bound above: with four rows and the
  menu templates it returns 0, with five rows and the schema templates - 3, where
  the formula of the claim gives 1 both times.
\<close>

theorem selectSize_below_one:
  "selectSize (Some selectState_templates) (demo_world 4 []) = 0
   \<and> selectSize (Some Schemas_templates) (demo_world 5 []) = - 3
   \<and> max 1 (4 - 4 - strings_Count (Tmpl_Details selectState_templates) [CHR 0x0A]) = 1
   \<and> max 1 (5 - 4 - strings_Count (Tmpl_Details Schemas_templates) [CHR 0x0A]) = 1"
  by code_simp

text \<open>
  At both inputs the window size is read without error, there are at least four
  rows and templates are given, so the result is the difference itself.
\<close>

theorem selectSize_below_one_witness:
  "terminalSize (demo_world 4 []) = (80, 4, None)
   \<and> terminalSize (demo_world 5 []) = (80, 5, None)
   \<and> selectSize (Some selectState_templates) (demo_world 4 []) < 1
   \<and> selectSize (Some Schemas_templates) (demo_world 5 []) < 1"
proof -
  have "terminalSize (demo_world 4 []) = (80, 4, None)"
    "terminalSize (demo_world 5 []) = (80, 5, None)"
    by (simp_all add: terminalSize_def demo_world_def)
  then show ?thesis using selectSize_below_one by simp
qed

text \<open>
  Claim C4. The claim asks every action to put one placeholder row in place of an
  empty result. Only \<^verbatim>\<open>Views\<close> and \<^verbatim>\<open>MaterializedViews\<close> do: on a database
  without empty tables \<^verbatim>\<open>TablesEmpty\<close> hands the picker the empty list, where
  \<^verbatim>\<open>Views\<close> on a database without views hands it the one row named back.
\<close>

theorem TablesEmpty_shows_empty_list:
  "q_TablesEmpty demo_db = Inr []
   \<and> map Select_Items (prompts (snd (TablesEmpty (demo_world 20 [])))) = [[]]
   \<and> map Select_Items (prompts (snd (Views (demo_world 20 [])))) = [[ViewItem view_back]]"
  by code_simp

text \<open>
  Claim C5. \<^verbatim>\<open>selectState\<close> on an empty list of states returns a nil state and a
  nil error and leaves the world as it is: no picker is run, nothing is printed.
\<close>

theorem empty_menu_bounces_to_root:
  "selectState name [] w = Ok ((None, None), w)"
  by (simp add: selectState_def)

text \<open>
  Claim C6. The claim asks for the footer line to be erased once on every return
  of a selection. \<^verbatim>\<open>selectState\<close> returns the picker's error before it reaches
  \<^verbatim>\<open>overwritePrevLine\<close>: on an interrupt at the root menu one picker has run and
  nothing has been printed, where a successful pick prints the six bytes once.
\<close>

theorem selectState_error_leaves_footer:
  "(case selectState ''Options'' startStates (demo_world 20 [(0, Some promptui_ErrInterrupt)]) of
      Ok ((nxt, err), w') \<Rightarrow> (err, length (prompts w'), stdout w')
    | Panic \<Rightarrow> (None, 0, []))
   = (Some promptui_ErrInterrupt, 1, [])
   \<and> (case selectState ''Options'' startStates (demo_world 20 [(1, None)]) of
      Ok ((nxt, err), w') \<Rightarrow> (err, length (prompts w'), stdout w')
    | Panic \<Rightarrow> (None, 0, []))
   = (None, 1, [CHR 0x1B, CHR ''['', CHR ''F'', CHR ''2'', CHR ''K'', CHR 0x0D])"
  by code_simp

text \<open>
  Claim C7. Every search closure of the program answers true to the empty input,
  at every index that addresses a row of its list, whatever the Unicode case
  mapping is.
\<close>

theorem empty_query_matches_every_item:
  assumes "0 \<le> i"
  shows "(i < int (length states) \<longrightarrow> selectState_searcher unicode states [] i = Ok True)
    \<and> (i < int (length schemas) \<longrightarrow>
          Schemas_searcher unicode schemas [] i = Ok True
          \<and> SchemasUserCreated_searcher unicode schemas [] i = Ok True)
    \<and> (i < int (length tables) \<longrightarrow>
          Tables_searcher unicode tables [] i = Ok True
          \<and> TablesBySize_searcher unicode tables [] i = Ok True
          \<and> TablesEmpty_searcher unicode tables [] i = Ok True)
    \<and> (i < int (length views) \<longrightarrow>
          Views_searcher unicode views [] i = Ok True
          \<and> MaterializedViews_searcher unicode views [] i = Ok True)
    \<and> (i < int (length summaries) \<longrightarrow> TablesBySchema_searcher unicode summaries [] i = Ok True)
    \<and> (i < int (length itables) \<longrightarrow> TablesBySizeWithIndex_searcher unicode itables [] i = Ok True)
    \<and> (i < int (length ctables) \<longrightarrow> TablesByRows_searcher unicode ctables [] i = Ok True)
    \<and> (i < int (length cols) \<longrightarrow> ColumnsFrequency_searcher unicode cols [] i = Ok True)"
  using assms
  by (simp add: selectState_searcher_def Schemas_searcher_def SchemasUserCreated_searcher_def
      Tables_searcher_def TablesBySize_searcher_def TablesEmpty_searcher_def Views_searcher_def
      MaterializedViews_searcher_def TablesBySchema_searcher_def
      TablesBySizeWithIndex_searcher_def TablesByRows_searcher_def
      ColumnsFrequency_searcher_def slice_at_def squash_empty Contains_empty)

text \<open>The first row of one list of each row type.\<close>

theorem empty_query_matches_every_item_witness:
  "(0::int) \<le> 0 \<and> 0 < int (length statStates)
   \<and> selectState_searcher (\<lambda>s. s) statStates [] 0 = Ok True
   \<and> Schemas_searcher (\<lambda>s. s) [\<lparr>schema_Name = ''public'', schema_Owner = ''postgres'', schema_CatalogName = ''postgres''\<rparr>] [] 0 = Ok True
   \<and> Tables_searcher (\<lambda>s. s) [\<lparr>pgTable_Catalog = ''postgres'', pgTable_Name = ''my table'',
                        pgTable_Owner = ''BASE TABLE'', pgTable_Schema = ''public'',
                        pgTable_Size = ''''\<rparr>] [] 0 = Ok True
   \<and> Views_searcher (\<lambda>s. s) [view_back] [] 0 = Ok True
   \<and> TablesBySchema_searcher (\<lambda>s. s) [\<lparr>summary_Schema = ''public'', summary_TableCount = 1\<rparr>] [] 0 = Ok True
   \<and> TablesBySizeWithIndex_searcher (\<lambda>s. s) [demo_itable] [] 0 = Ok True
   \<and> TablesByRows_searcher (\<lambda>s. s) [demo_ctable] [] 0 = Ok True
   \<and> ColumnsFrequency_searcher (\<lambda>s. s) [\<lparr>colFrequency_Name = ''id'', colFrequency_Tables = 2, colFrequency_PercentTables = 0\<rparr>] [] 0 = Ok True"
  using empty_query_matches_every_item [where i = 0 and unicode = "\<lambda>s. s" and states = statStates
      and schemas = "[\<lparr>schema_Name = ''public'', schema_Owner = ''postgres'', schema_CatalogName = ''postgres''\<rparr>]"
      and tables = "[\<lparr>pgTable_Catalog = ''postgres'', pgTable_Name = ''my table'',
                        pgTable_Owner = ''BASE TABLE'', pgTable_Schema = ''public'',
                        pgTable_Size = ''''\<rparr>]"
      and views = "[view_back]"
      and summaries = "[\<lparr>summary_Schema = ''public'', summary_TableCount = 1\<rparr>]"
      and itables = "[demo_itable]" and ctables = "[demo_ctable]"
      and cols = "[\<lparr>colFrequency_Name = ''id'', colFrequency_Tables = 2, colFrequency_PercentTables = 0\<rparr>]"]
  by (simp add: statStates_def)






text \<open>
  Claim C10. \<^verbatim>\<open>Run\<close> does not read its debug argument: with either value it
  returns the same error and leaves the same world, pickers run and bytes printed
  included.
\<close>

theorem Run_ignores_debug:
  "Run n w debug = Run n w debug'"
  by (simp add: Run_def)

end
